theory Spec2Isabelle
  imports Main "HOL-Library.Word" "HOL-Library.Char_ord" "HOL-Library.List_Lexorder"
begin

section \<open>Values shared by the packages\<close>

text \<open>
  A \<^verbatim>\<open>time.Time\<close> is an instant, counted in nanoseconds since the Unix epoch;
  \<^verbatim>\<open>time.Hour\<close> is a duration in nanoseconds.
\<close>

type_synonym Time = int

definition time_Hour :: int where
  "time_Hour = 3600000000000"

section \<open>Package validate: the error types\<close>

text \<open>
  \<^verbatim>\<open>FieldError\<close> is the struct with the tags \<^verbatim>\<open>json:"field"\<close> and
  \<^verbatim>\<open>json:"error"\<close>. \<^verbatim>\<open>FieldErrors\<close> is a slice of them; a Go slice is either nil
  (\<open>None\<close>) or holds a sequence of elements, and \<^verbatim>\<open>encoding/json\<close> tells the two apart.
\<close>

record FieldError =
  fe_Field :: string
  fe_Error :: string

type_synonym FieldErrors = "FieldError list option"

text \<open>
  Go's \<^verbatim>\<open>error\<close> values that this code creates, compares and wraps. The sentinel
  variables of the packages \<^verbatim>\<open>user\<close>, \<^verbatim>\<open>database\<close> and \<^verbatim>\<open>validate\<close> are compared by
  identity in Go, so each is a constructor of its own; \<^verbatim>\<open>ErrInvalidID\<close> (package user) and
  \<^verbatim>\<open>ErrInvalidId\<close> (package validate) carry the same message and are different values.
  \<open>Errorf format args err\<close> is the value of \<^verbatim>\<open>fmt.Errorf(format, args..., err)\<close> where the
  format ends in \<^verbatim>\<open>%w\<close>: the format and the string arguments are kept as they are written
  in the source, the wrapped error is what \<^verbatim>\<open>Unwrap\<close> gives back. \<open>ErrorsNew\<close> is an error
  made by \<^verbatim>\<open>errors.New\<close> anywhere else (a collaborator's failure).
\<close>

datatype error =
    ErrNotFound
  | ErrInvalidID
  | ErrInvalidEmail
  | ErrUniqueEmail
  | ErrAuthenticationFailure
  | ErrDBNotFound
  | ErrForbidden
  | ErrInvalidId
  | ErrorsNew string
  | Errorf string "string list" error
  | RequestError error int "error option"
  | FieldErrs FieldErrors

text \<open>\<^verbatim>\<open>NewRequestError\<close> wraps an error with an HTTP status code; its \<^verbatim>\<open>Fields\<close> are nil.\<close>

definition NewRequestError :: "error \<Rightarrow> int \<Rightarrow> error" where
  "NewRequestError err status = RequestError err status None"

text \<open>
  The \<^verbatim>\<open>Unwrap\<close> method of an error value. Of the types above only the one that
  \<^verbatim>\<open>fmt.Errorf\<close> builds for \<^verbatim>\<open>%w\<close> has the method; \<^verbatim>\<open>RequestError\<close> and \<^verbatim>\<open>FieldErrors\<close>
  declare none.
\<close>

fun Unwrap_method :: "error \<Rightarrow> error option" where
  "Unwrap_method (Errorf format args err) = Some err"
| "Unwrap_method _ = None"

text \<open>
  \<^verbatim>\<open>errors.Unwrap(err)\<close>: the result of the \<^verbatim>\<open>Unwrap\<close> method of \<open>err\<close> when its type
  has one, nil otherwise, and nil for the nil error. The method is a parameter, since any
  type that implements \<^verbatim>\<open>error\<close> may declare it.
\<close>

definition errors_Unwrap :: "('e \<Rightarrow> 'e option) \<Rightarrow> 'e option \<Rightarrow> 'e option" where
  "errors_Unwrap unwrap err = (case err of None \<Rightarrow> None | Some e \<Rightarrow> unwrap e)"

text \<open>
  \<^verbatim>\<open>errors.Is(err, target)\<close> for a non-nil \<open>err\<close>: some error of the chain is the target.
\<close>

fun errors_Is :: "error \<Rightarrow> error \<Rightarrow> bool" where
  "errors_Is (Errorf format args err) target =
     (Errorf format args err = target \<or> errors_Is err target)"
| "errors_Is err target = (err = target)"

text \<open>
  \<^verbatim>\<open>Cause\<close>: the loop
  \<^verbatim>\<open>root := err; for { if err = errors.Unwrap(root); err == nil { return root }; root = err }\<close>.
  The loop need not end (an \<^verbatim>\<open>Unwrap\<close> method may give back an error that wraps itself), so
  the result is in the option monad: \<open>None\<close> is a run that never returns, \<open>Some root\<close> is
  the returned error, where \<open>root = None\<close> is Go's nil.
\<close>

partial_function (option) Cause :: "('e \<Rightarrow> 'e option) \<Rightarrow> 'e option \<Rightarrow> 'e option option" where
  "Cause unwrap root =
     (case errors_Unwrap unwrap root of
        None \<Rightarrow> Some root
      | Some err \<Rightarrow> Cause unwrap (Some err))"

text \<open>
  The error reached from \<open>e\<close> after \<open>n\<close> calls of \<^verbatim>\<open>Unwrap\<close>, when the chain is that long.
\<close>

fun unwrap_n :: "('e \<Rightarrow> 'e option) \<Rightarrow> nat \<Rightarrow> 'e \<Rightarrow> 'e option" where
  "unwrap_n unwrap 0 e = Some e"
| "unwrap_n unwrap (Suc n) e =
     (case unwrap e of None \<Rightarrow> None | Some e' \<Rightarrow> unwrap_n unwrap n e')"

text \<open>
  \<^verbatim>\<open>encoding/json\<close> belongs to Go's standard library. It is modelled up to the JSON document
  that \<^verbatim>\<open>json.Marshal\<close> encodes: the members of an object in the order of the struct's
  fields, under the names of the \<^verbatim>\<open>json\<close> tags. The bytes (quoting and escapes of the
  strings) are the library's.
\<close>

datatype json =
    JNull
  | JString string
  | JArray "json list"
  | JObject "(string \<times> json) list"

definition json_Marshal_FieldError :: "FieldError \<Rightarrow> json" where
  "json_Marshal_FieldError fld =
     JObject [(''field'', JString (fe_Field fld)), (''error'', JString (fe_Error fld))]"

text \<open>A nil slice is encoded as \<^verbatim>\<open>null\<close>, any other slice as an array of its elements.\<close>

definition json_Marshal_FieldErrors :: "FieldErrors \<Rightarrow> json" where
  "json_Marshal_FieldErrors fe =
     (case fe of None \<Rightarrow> JNull | Some flds \<Rightarrow> JArray (map json_Marshal_FieldError flds))"

text \<open>
  \<^verbatim>\<open>FieldErrors.Error\<close> returns the text of \<^verbatim>\<open>json.Marshal(fe)\<close>. Marshalling a slice of
  structs of two strings cannot fail, so the branch that returns \<^verbatim>\<open>err.Error()\<close> is never
  taken.
\<close>

definition FieldErrors_Error :: "FieldErrors \<Rightarrow> json" where
  "FieldErrors_Error fe = json_Marshal_FieldErrors fe"

text \<open>
  \<^verbatim>\<open>FieldErrors.Fields\<close>: the loop \<^verbatim>\<open>for _, fld := range fe { m[fld.Field] = fld.Error }\<close>
  over a new map. Ranging over a nil slice runs no iteration.
\<close>

fun Fields_loop :: "FieldError list \<Rightarrow> (string \<rightharpoonup> string) \<Rightarrow> (string \<rightharpoonup> string)" where
  "Fields_loop [] m = m"
| "Fields_loop (fld # rest) m = Fields_loop rest (m(fe_Field fld \<mapsto> fe_Error fld))"

definition Fields :: "FieldErrors \<Rightarrow> (string \<rightharpoonup> string)" where
  "Fields fe = Fields_loop (case fe of None \<Rightarrow> [] | Some flds \<Rightarrow> flds) Map.empty"

text \<open>
  \<^verbatim>\<open>ErrorResponse\<close>: both fields are Go strings; \<^verbatim>\<open>Fields\<close> has the tag
  \<^verbatim>\<open>json:"fields,omitempty"\<close>, so it is left out when it is the empty string.
\<close>

record ErrorResponse =
  er_Error :: string
  er_Fields :: string

definition json_Marshal_ErrorResponse :: "ErrorResponse \<Rightarrow> json" where
  "json_Marshal_ErrorResponse er =
     JObject ((''error'', JString (er_Error er))
              # (if er_Fields er = [] then [] else [(''fields'', JString (er_Fields er))]))"

text \<open>
  The body shape in the words of the specification:
  \<^verbatim>\<open>{ "error": string, "fields": [ {"field": string, "error": string}, ... ]? }\<close>.
  Written for the comparison with \<open>json_Marshal_ErrorResponse\<close>; members are looked up by
  name, so neither their order nor further members matter.
\<close>

definition json_member :: "json \<Rightarrow> string \<Rightarrow> json option" where
  "json_member j k = (case j of JObject ms \<Rightarrow> map_of ms k | _ \<Rightarrow> None)"

definition is_JString :: "json \<Rightarrow> bool" where
  "is_JString j = (case j of JString s \<Rightarrow> True | _ \<Rightarrow> False)"

definition spec_field_entry :: "json \<Rightarrow> bool" where
  "spec_field_entry j =
     ((case json_member j ''field'' of Some v \<Rightarrow> is_JString v | None \<Rightarrow> False)
      \<and> (case json_member j ''error'' of Some v \<Rightarrow> is_JString v | None \<Rightarrow> False))"

definition spec_error_body :: "json \<Rightarrow> bool" where
  "spec_error_body j =
     ((case json_member j ''error'' of Some v \<Rightarrow> is_JString v | None \<Rightarrow> False)
      \<and> (case json_member j ''fields'' of
            None \<Rightarrow> True
          | Some (JArray entries) \<Rightarrow> list_all spec_field_entry entries
          | Some _ \<Rightarrow> False))"

section \<open>Package user: the store\<close>

text \<open>
  The structs \<^verbatim>\<open>User\<close> and \<^verbatim>\<open>UpdateUser\<close> and \<^verbatim>\<open>auth.Claims\<close>, with the fields the store
  reads and writes. A pointer field of \<^verbatim>\<open>UpdateUser\<close> is nil (\<open>None\<close>) or points to a
  value; its \<^verbatim>\<open>Roles\<close> is a slice, nil or not. \<^verbatim>\<open>PasswordHash\<close> is a byte slice. The
  \<^verbatim>\<open>*jwt.NumericDate\<close> fields of the registered claims are pointers as well.
\<close>

record User =
  ID :: string
  Name :: string
  Email :: string
  PasswordHash :: string
  Roles :: "string list"
  DateCreated :: Time
  DateUpdated :: Time

record UpdateUser =
  uu_Name :: "string option"
  uu_Email :: "string option"
  uu_Roles :: "string list option"
  uu_Password :: "string option"

record Claims =
  Issuer :: string
  Subject :: string
  ExpiresAt :: "Time option"
  IssuedAt :: "Time option"
  claims_Roles :: "string list"

text \<open>
  Modelled from the spec: the method \<^verbatim>\<open>Claims.Authorized\<close> of package auth is not under
  src/. The specification: \<^verbatim>\<open>Authorized(requiredRole)\<close> is true iff the role set contains
  requiredRole.
\<close>

definition Authorized :: "Claims \<Rightarrow> string \<Rightarrow> bool" where
  "Authorized claims requiredRole = (requiredRole \<in> set (claims_Roles claims))"

text \<open>
  \<^verbatim>\<open>jwt.NewNumericDate\<close> (library golang-jwt, version 4) cuts the instant down to the
  library's precision, one second.
\<close>

definition jwt_NewNumericDate :: "Time \<Rightarrow> Time" where
  "jwt_NewNumericDate t = t - t mod 1000000000"

text \<open>
  What the store calls and this repository's source files under src/ do not hold, taken
  as parameters: the constant \<^verbatim>\<open>auth.RoleAdmin\<close>, \<^verbatim>\<open>validate.CheckID\<close> and
  \<^verbatim>\<open>validate.Check\<close> (nil, \<open>None\<close>, when the value passes), and the two functions of
  \<^verbatim>\<open>bcrypt\<close> for the salt the call draws.
\<close>

record lib =
  RoleAdmin :: string
  CheckID :: "string \<Rightarrow> error option"
  Check :: "UpdateUser \<Rightarrow> error option"
  GenerateFromPassword :: "string \<Rightarrow> error + string"
  CompareHashAndPassword :: "string \<Rightarrow> string \<Rightarrow> error option"

text \<open>
  The statements the store sends to package database: the constant query text \<open>q\<close> of
  each method together with the value bound to its named parameters. Go's \<^verbatim>\<open>int\<close> is a
  64-bit machine integer.
\<close>

datatype stmt =
    UpdateUsers User
  | DeleteUsers string
  | SelectUsersPage "64 word" "64 word"
  | SelectUsersByID string
  | SelectUsersByEmail string

text \<open>
  Package database is not under src/ either; its three functions are parameters over a
  database state \<open>'db\<close>. \<^verbatim>\<open>NamedExecContext\<close> returns the error (or nil) and the state
  it leaves; the two query functions read the state and fill the destination or fail.
\<close>

record 'db database =
  NamedExecContext :: "'db \<Rightarrow> stmt \<Rightarrow> error option \<times> 'db"
  NamedQueryStruct :: "'db \<Rightarrow> stmt \<Rightarrow> error + User"
  NamedQuerySlice :: "'db \<Rightarrow> stmt \<Rightarrow> error + User list"

text \<open>\<^verbatim>\<open>Store.QueryByID\<close>.\<close>

definition QueryByID :: "lib \<Rightarrow> 'db database \<Rightarrow> 'db \<Rightarrow> Claims \<Rightarrow> string \<Rightarrow> error + User" where
  "QueryByID l d db claims userID =
     (case CheckID l userID of
        Some err \<Rightarrow> Inl ErrInvalidID
      | None \<Rightarrow>
          if \<not> Authorized claims (RoleAdmin l) \<and> Subject claims \<noteq> userID then Inl ErrForbidden
          else
            (case NamedQueryStruct d db (SelectUsersByID userID) of
               Inl err \<Rightarrow>
                 if err = ErrDBNotFound then Inl ErrNotFound
                 else Inl (Errorf ''selecting userID[%q]: %w'' [userID] err)
             | Inr usr \<Rightarrow>
                 if \<not> Authorized claims (RoleAdmin l) \<and> Subject claims \<noteq> ID usr
                 then Inl ErrForbidden
                 else Inr usr))"

text \<open>
  \<^verbatim>\<open>Store.Update\<close>. The result is the returned error (nil is \<open>None\<close>) and the database
  state after the call.
\<close>

definition Update ::
  "lib \<Rightarrow> 'db database \<Rightarrow> 'db \<Rightarrow> Claims \<Rightarrow> string \<Rightarrow> UpdateUser \<Rightarrow> Time \<Rightarrow> error option \<times> 'db" where
  "Update l d db claims userID uu now =
     (case CheckID l userID of
        Some err \<Rightarrow> (Some ErrInvalidID, db)
      | None \<Rightarrow>
     (case Check l uu of
        Some err \<Rightarrow> (Some (Errorf ''validating data: %w'' [] err), db)
      | None \<Rightarrow>
     (case QueryByID l d db claims userID of
        Inl err \<Rightarrow>
          if errors_Is err ErrDBNotFound then (Some ErrNotFound, db)
          else (Some (Errorf ''updating user userID[%s]: %w'' [userID] err), db)
      | Inr usr0 \<Rightarrow>
          let usr1 = (case uu_Name uu of None \<Rightarrow> usr0 | Some n \<Rightarrow> usr0\<lparr>Name := n\<rparr>);
              usr2 = (case uu_Email uu of None \<Rightarrow> usr1 | Some e \<Rightarrow> usr1\<lparr>Email := e\<rparr>);
              usr3 = (case uu_Roles uu of None \<Rightarrow> usr2 | Some rs \<Rightarrow> usr2\<lparr>Roles := rs\<rparr>)
          in
            (case (case uu_Password uu of
                     None \<Rightarrow> Inr usr3
                   | Some p \<Rightarrow>
                       (case GenerateFromPassword l p of
                          Inl err \<Rightarrow> Inl (Errorf ''generating password hash: %w'' [] err)
                        | Inr pw \<Rightarrow> Inr (usr3\<lparr>PasswordHash := pw\<rparr>))) of
               Inl err \<Rightarrow> (Some err, db)
             | Inr usr4 \<Rightarrow>
                 (case NamedExecContext d db (UpdateUsers (usr4\<lparr>DateUpdated := now\<rparr>)) of
                    (Some err, db') \<Rightarrow> (Some (Errorf ''inserting user: %w'' [] err), db')
                  | (None, db') \<Rightarrow> (None, db'))))))"

text \<open>\<^verbatim>\<open>Store.Delete\<close>.\<close>

definition Delete ::
  "lib \<Rightarrow> 'db database \<Rightarrow> 'db \<Rightarrow> Claims \<Rightarrow> string \<Rightarrow> error option \<times> 'db" where
  "Delete l d db claims userID =
     (case CheckID l userID of
        Some err \<Rightarrow> (Some ErrInvalidID, db)
      | None \<Rightarrow>
          if \<not> Authorized claims (RoleAdmin l) \<and> Subject claims \<noteq> userID
          then (Some ErrForbidden, db)
          else
            (case NamedExecContext d db (DeleteUsers userID) of
               (Some err, db') \<Rightarrow> (Some (Errorf ''deleting userID[%s]: %w'' [userID] err), db')
             | (None, db') \<Rightarrow> (None, db')))"

text \<open>
  \<^verbatim>\<open>Store.Query\<close>. The offset is computed in Go's \<^verbatim>\<open>int\<close>. The error is compared with
  \<^verbatim>\<open>ErrNotFound\<close> of package user.
\<close>

definition Query :: "'db database \<Rightarrow> 'db \<Rightarrow> 64 word \<Rightarrow> 64 word \<Rightarrow> error + User list" where
  "Query d db pageNumber rowsPerPage =
     (case NamedQuerySlice d db (SelectUsersPage ((pageNumber - 1) * rowsPerPage) rowsPerPage) of
        Inl err \<Rightarrow>
          if err = ErrNotFound then Inl ErrNotFound
          else Inl (Errorf ''selecting users: %w'' [] err)
      | Inr users \<Rightarrow> Inr users)"

text \<open>\<^verbatim>\<open>Store.QueryByEmail\<close>.\<close>

definition QueryByEmail :: "lib \<Rightarrow> 'db database \<Rightarrow> 'db \<Rightarrow> Claims \<Rightarrow> string \<Rightarrow> error + User" where
  "QueryByEmail l d db claims email =
     (case NamedQueryStruct d db (SelectUsersByEmail email) of
        Inl err \<Rightarrow> Inl (Errorf ''selecting email[%q]: %w'' [email] err)
      | Inr usr \<Rightarrow>
          if \<not> Authorized claims (RoleAdmin l) \<and> Subject claims \<noteq> ID usr
          then Inl ErrForbidden
          else Inr usr)"

text \<open>
  \<^verbatim>\<open>Store.Authenticate\<close>. Besides its parameter \<open>now\<close> the method reads the wall clock
  twice, with \<^verbatim>\<open>time.Now()\<close>: \<open>wall1\<close> is the reading for \<^verbatim>\<open>ExpiresAt\<close>, \<open>wall2\<close> the one
  for \<^verbatim>\<open>IssuedAt\<close> (the fields of the literal are evaluated in this order). The error of
  the query is compared with \<^verbatim>\<open>ErrNotFound\<close> of package user.
\<close>

definition Authenticate ::
  "lib \<Rightarrow> 'db database \<Rightarrow> 'db \<Rightarrow> Time \<Rightarrow> Time \<Rightarrow> Time \<Rightarrow> string \<Rightarrow> string \<Rightarrow> error + Claims" where
  "Authenticate l d db now wall1 wall2 email password =
     (case NamedQueryStruct d db (SelectUsersByEmail email) of
        Inl err \<Rightarrow>
          if err = ErrNotFound then Inl ErrNotFound
          else Inl (Errorf ''selecting email[%q]: %w'' [email] err)
      | Inr usr \<Rightarrow>
          (case CompareHashAndPassword l (PasswordHash usr) password of
             Some err \<Rightarrow> Inl ErrAuthenticationFailure
           | None \<Rightarrow>
               Inr \<lparr> Issuer = ''service project'',
                     Subject = ID usr,
                     ExpiresAt = Some (jwt_NewNumericDate (wall1 + time_Hour)),
                     IssuedAt = Some (jwt_NewNumericDate wall2),
                     claims_Roles = Roles usr \<rparr>))"

section \<open>A database held as a table of users\<close>

text \<open>
  Modelled from the spec: package database (\<^verbatim>\<open>NamedExecContext\<close>, \<^verbatim>\<open>NamedQueryStruct\<close>,
  \<^verbatim>\<open>NamedQuerySlice\<close>) is not under src/. The specification asks of the persistence
  collaborator \<^verbatim>\<open>ExecuteNamed(query, boundParams)\<close>, \<^verbatim>\<open>QueryOne\<close> and \<^verbatim>\<open>QueryMany\<close>, and that
  it surfaces a distinguishable not-found condition; the store's own code names that
  condition \<^verbatim>\<open>database.ErrDBNotFound\<close>. Here the state is the rows of the table
  \<^verbatim>\<open>users\<close>, and each statement does what its SQL text in the store says:
  \<^verbatim>\<open>UPDATE users SET name, email, roles, password_hash, date_updated WHERE user_id = :user_id\<close>
  (the columns \<^verbatim>\<open>user_id\<close> and \<^verbatim>\<open>date_created\<close> are not assigned),
  \<^verbatim>\<open>DELETE FROM users WHERE user_id = :user_id\<close>,
  \<^verbatim>\<open>SELECT * FROM users WHERE user_id = :user_id\<close>, the same by \<^verbatim>\<open>email\<close>, and
  \<^verbatim>\<open>SELECT * FROM users ORDER BY user_id OFFSET :offset ROWS FETCH NEXT :rows_per_page ROWS ONLY\<close>.
  A query for one row with no matching row is the not-found condition. This table has no
  other way to fail, except that a negative offset or row count is refused.
\<close>

definition table_exec :: "User list \<Rightarrow> stmt \<Rightarrow> error option \<times> User list" where
  "table_exec rows st =
     (case st of
        UpdateUsers usr \<Rightarrow>
          (None,
           map (\<lambda>r. if ID r = ID usr
                     then r\<lparr>Name := Name usr, Email := Email usr, Roles := Roles usr,
                            PasswordHash := PasswordHash usr, DateUpdated := DateUpdated usr\<rparr>
                     else r) rows)
      | DeleteUsers userID \<Rightarrow> (None, filter (\<lambda>r. ID r \<noteq> userID) rows)
      | _ \<Rightarrow> (None, rows))"

definition table_query_struct :: "User list \<Rightarrow> stmt \<Rightarrow> error + User" where
  "table_query_struct rows st =
     (case st of
        SelectUsersByID userID \<Rightarrow>
          (case find (\<lambda>r. ID r = userID) rows of None \<Rightarrow> Inl ErrDBNotFound | Some r \<Rightarrow> Inr r)
      | SelectUsersByEmail email \<Rightarrow>
          (case find (\<lambda>r. Email r = email) rows of None \<Rightarrow> Inl ErrDBNotFound | Some r \<Rightarrow> Inr r)
      | _ \<Rightarrow> Inl (ErrorsNew ''not a query for one row''))"

definition table_query_slice :: "User list \<Rightarrow> stmt \<Rightarrow> error + User list" where
  "table_query_slice rows st =
     (case st of
        SelectUsersPage offset rowsPerPage \<Rightarrow>
          if sint offset < 0 \<or> sint rowsPerPage < 0
          then Inl (ErrorsNew ''OFFSET and FETCH must not be negative'')
          else Inr (take (unat rowsPerPage) (drop (unat offset) (sort_key ID rows)))
      | _ \<Rightarrow> Inl (ErrorsNew ''not a query for rows''))"

definition users_table :: "User list database" where
  "users_table =
     \<lparr> NamedExecContext = table_exec,
       NamedQueryStruct = table_query_struct,
       NamedQuerySlice = table_query_slice \<rparr>"

text \<open>
  Sample collaborators and sample rows, for evaluating the store at concrete inputs: an
  ID is well-formed when it has two characters (in place of the 36 of a UUID), every
  update passes validation, and the hash of a password is the password behind a prefix.
\<close>

definition sample_lib :: lib where
  "sample_lib =
     \<lparr> RoleAdmin = ''ADMIN'',
       CheckID = (\<lambda>userID. if length userID = 2 then None else Some ErrInvalidId),
       Check = (\<lambda>uu. None),
       GenerateFromPassword = (\<lambda>p. Inr (''hash:'' @ p)),
       CompareHashAndPassword =
         (\<lambda>h p. if h = ''hash:'' @ p then None else Some (ErrorsNew ''hash mismatch'')) \<rparr>"

definition user_U1 :: User where
  "user_U1 =
     \<lparr> ID = ''U1'', Name = ''Ann'', Email = ''a@x.com'', PasswordHash = ''hash:secret'',
       Roles = [''USER''], DateCreated = 1000, DateUpdated = 1000 \<rparr>"

definition user_U2 :: User where
  "user_U2 =
     \<lparr> ID = ''U2'', Name = ''Bob'', Email = ''b@x.com'', PasswordHash = ''hash:hunter2'',
       Roles = [''USER''], DateCreated = 2000, DateUpdated = 2000 \<rparr>"

definition claims_of :: "string \<Rightarrow> string list \<Rightarrow> Claims" where
  "claims_of subject roles =
     \<lparr> Issuer = ''service project'', Subject = subject,
       ExpiresAt = Some 20000000000, IssuedAt = Some 10000000000, claims_Roles = roles \<rparr>"

section \<open>Token Codec\<close>

text \<open>
  Modelled from the spec: the Token Codec (package auth: issuing and parsing tokens, the
  key pairs) is not under src/. The specification: the key pairs are addressable by key
  identifier; \<^verbatim>\<open>Issue(claims)\<close> serializes the claims, signs with the private key of
  the currently active key identifier and fails only if the signing key is unavailable;
  \<^verbatim>\<open>Parse(token)\<close> verifies the signature with the public key resolved from the token's key
  identifier, decodes the payload, and fails with an authentication error if the signature
  is invalid, the key identifier is unknown, or the current time is outside the validity
  window. The window is [issued-at, expiry], with the expiry exclusive (no leeway). The
  signature scheme is a parameter; the payload of a token stands for the serialized claims.
\<close>

record ('k, 's) TokenCodec =
  keys :: "string \<Rightarrow> ('k \<times> 'k) option"
  active :: string
  sign :: "'k \<Rightarrow> Claims \<Rightarrow> 's"
  verify :: "'k \<Rightarrow> Claims \<Rightarrow> 's \<Rightarrow> bool"

record 's Token =
  kid :: string
  payload :: Claims
  signature :: 's

datatype codec_error = SigningKeyUnavailable | AuthenticationError

definition Issue :: "('k, 's) TokenCodec \<Rightarrow> Claims \<Rightarrow> codec_error + 's Token" where
  "Issue a claims =
     (case keys a (active a) of
        None \<Rightarrow> Inl SigningKeyUnavailable
      | Some (private, public) \<Rightarrow>
          Inr \<lparr> kid = active a, payload = claims, signature = sign a private claims \<rparr>)"

definition in_validity_window :: "Time \<Rightarrow> Claims \<Rightarrow> bool" where
  "in_validity_window now claims =
     (case (IssuedAt claims, ExpiresAt claims) of
        (Some iat, Some exp) \<Rightarrow> iat \<le> now \<and> now < exp
      | _ \<Rightarrow> False)"

definition Parse :: "('k, 's) TokenCodec \<Rightarrow> Time \<Rightarrow> 's Token \<Rightarrow> codec_error + Claims" where
  "Parse a now tok =
     (case keys a (kid tok) of
        None \<Rightarrow> Inl AuthenticationError
      | Some (private, public) \<Rightarrow>
          if \<not> verify a public (payload tok) (signature tok) then Inl AuthenticationError
          else if \<not> in_validity_window now (payload tok) then Inl AuthenticationError
          else Inr (payload tok))"

text \<open>
  The invariant of Claims in the specification: expiry after issued-at, subject not empty.
  And the claim's condition, an expiry strictly after the current time.
\<close>

definition valid_claims :: "Claims \<Rightarrow> bool" where
  "valid_claims claims =
     (Subject claims \<noteq> []
      \<and> (case (IssuedAt claims, ExpiresAt claims) of
            (Some iat, Some exp) \<Rightarrow> iat < exp
          | _ \<Rightarrow> False))"

definition expires_after :: "Time \<Rightarrow> Claims \<Rightarrow> bool" where
  "expires_after now claims = (case ExpiresAt claims of Some exp \<Rightarrow> now < exp | None \<Rightarrow> False)"

text \<open>
  A sample codec with one key pair, whose signature is the key with the signed claims.
\<close>

definition sample_codec :: "(nat, nat \<times> Claims) TokenCodec" where
  "sample_codec =
     \<lparr> keys = (\<lambda>k. if k = ''key-1'' then Some (7, 7) else None),
       active = ''key-1'',
       sign = (\<lambda>private claims. (private, claims)),
       verify = (\<lambda>public claims s. s = (public, claims)) \<rparr>"

section \<open>Response Writer\<close>

text \<open>
  Modelled from the spec: the Response Writer (\<^verbatim>\<open>web.Respond\<close>) and the per-request
  context values are not under src/; only a call of \<^verbatim>\<open>web.Respond\<close> is. The specification:
  the per-request values hold a mutable "response already started" flag;
  \<^verbatim>\<open>Respond(result, statusCode)\<close> encodes the result to the wire and marks the flag; a
  second call for the same request is detected by the flag check. The state of a request
  is the flag and the responses written to the wire so far.
\<close>

record Response =
  statusCode :: int
  body :: json

record Request =
  started :: bool
  wire :: "Response list"

datatype respond_error = AlreadyStarted

definition new_Request :: Request where
  "new_Request = \<lparr> started = False, wire = [] \<rparr>"

definition Respond :: "Request \<Rightarrow> json \<Rightarrow> int \<Rightarrow> respond_error option \<times> Request" where
  "Respond req result status =
     (if started req then (Some AlreadyStarted, req)
      else (None, req\<lparr>started := True,
                       wire := wire req @ [\<lparr>statusCode = status, body = result\<rparr>]\<rparr>))"

text \<open>
  A request during which \<^verbatim>\<open>Respond\<close> is called with each of the given results in turn:
  the errors returned and the state after each call.
\<close>

fun Respond_calls ::
  "Request \<Rightarrow> (json \<times> int) list \<Rightarrow> (respond_error option \<times> Request) list" where
  "Respond_calls req [] = []"
| "Respond_calls req ((result, status) # calls) =
     (case Respond req result status of
        (err, req') \<Rightarrow> (err, req') # Respond_calls req' calls)"

text \<open>The number of times a sequence of flag values goes from false to true.\<close>

fun rises :: "bool list \<Rightarrow> nat" where
  "rises (a # b # rest) = (if \<not> a \<and> b then 1 else 0) + rises (b # rest)"
| "rises _ = 0"

text \<open>
  The elements of a JSON array, and the body shape that \<^verbatim>\<open>ErrorResponse\<close> has by its
  declaration: an \<^verbatim>\<open>error\<close> string and, optionally, a \<^verbatim>\<open>fields\<close> string.
\<close>

definition json_elements :: "json \<Rightarrow> json list" where
  "json_elements j = (case j of JArray entries \<Rightarrow> entries | _ \<Rightarrow> [])"

definition declared_error_body :: "json \<Rightarrow> bool" where
  "declared_error_body j =
     ((case json_member j ''error'' of Some v \<Rightarrow> is_JString v | None \<Rightarrow> False)
      \<and> (case json_member j ''fields'' of None \<Rightarrow> True | Some v \<Rightarrow> is_JString v))"

text \<open>The claims were issued at or before the given time.\<close>

definition issued_by :: "Time \<Rightarrow> Claims \<Rightarrow> bool" where
  "issued_by now claims = (case IssuedAt claims of Some iat \<Rightarrow> iat \<le> now | None \<Rightarrow> False)"

section \<open>Cause\<close>

lemma Cause_unwrapped: "unwrap r = None \<Longrightarrow> Cause unwrap (Some r) = Some (Some r)"
  by (subst Cause.simps) (simp add: errors_Unwrap_def)

lemma Cause_step: "unwrap e = Some e' \<Longrightarrow> Cause unwrap (Some e) = Cause unwrap (Some e')"
  by (subst Cause.simps) (simp add: errors_Unwrap_def)

lemma Cause_nil: "Cause unwrap None = Some None"
  by (subst Cause.simps) (simp add: errors_Unwrap_def)

lemma Cause_chain:
  "unwrap_n unwrap n e = Some r \<Longrightarrow> unwrap r = None \<Longrightarrow> Cause unwrap (Some e) = Some (Some r)"
proof (induction n arbitrary: e)
  case 0
  then show ?case by (simp add: Cause_unwrapped)
next
  case (Suc n)
  then obtain e' where step: "unwrap e = Some e'" and rest: "unwrap_n unwrap n e' = Some r"
    by (auto split: option.splits)
  from Suc.IH [OF rest Suc.prems(2)] step show ?case
    by (simp add: Cause_step)
qed

text \<open>
  Claim C9. When the chain of wrapped errors of \<open>e\<close> is finite (after \<open>n\<close> calls of
  \<^verbatim>\<open>Unwrap\<close> it reaches an error \<open>r\<close> whose \<^verbatim>\<open>Unwrap\<close> is nil), \<^verbatim>\<open>Cause\<close> returns, and
  returns that innermost error \<open>r\<close>; \<^verbatim>\<open>Cause\<close> applied to the result returns the same
  error again; and \<open>r\<close>, an error that wraps nothing, comes back unchanged (any
  unwrapped error is the case \<open>n = 0\<close>, \<open>e = r\<close>).
\<close>

theorem Cause_innermost_idempotent:
  assumes "unwrap_n unwrap n e = Some r" and "unwrap r = None"
  shows "Cause unwrap (Some e) = Some (Some r)
       \<and> Option.bind (Cause unwrap (Some e)) (Cause unwrap) = Cause unwrap (Some e)
       \<and> Cause unwrap (Some r) = Some (Some r)"
proof -
  have c: "Cause unwrap (Some e) = Some (Some r)"
    using assms by (rule Cause_chain)
  have i: "Cause unwrap (Some r) = Some (Some r)"
    using assms(2) by (rule Cause_unwrapped)
  from c i show ?thesis by simp
qed

theorem Cause_innermost_idempotent_witness:
  "unwrap_n Unwrap_method 2
     (Errorf ''updating user userID[%s]: %w'' [''u1'']
        (Errorf ''selecting userID[%q]: %w'' [''u1''] ErrDBNotFound)) = Some ErrDBNotFound
   \<and> Unwrap_method ErrDBNotFound = None
   \<and> Cause Unwrap_method
       (Some (Errorf ''updating user userID[%s]: %w'' [''u1'']
          (Errorf ''selecting userID[%q]: %w'' [''u1''] ErrDBNotFound))) = Some (Some ErrDBNotFound)
   \<and> Option.bind
       (Cause Unwrap_method
         (Some (Errorf ''updating user userID[%s]: %w'' [''u1'']
            (Errorf ''selecting userID[%q]: %w'' [''u1''] ErrDBNotFound))))
       (Cause Unwrap_method) = Some (Some ErrDBNotFound)
   \<and> Cause Unwrap_method (Some ErrDBNotFound) = Some (Some ErrDBNotFound)"
proof -
  have h1: "unwrap_n Unwrap_method 2
     (Errorf ''updating user userID[%s]: %w'' [''u1'']
        (Errorf ''selecting userID[%q]: %w'' [''u1''] ErrDBNotFound)) = Some ErrDBNotFound"
    by (simp add: numeral_2_eq_2)
  have h2: "Unwrap_method ErrDBNotFound = None" by simp
  from Cause_innermost_idempotent [OF h1 h2] h1 h2 show ?thesis
    by simp
qed

section \<open>Ownership checks of the store\<close>

lemma Delete_forbidden_iff:
  "CheckID l userID = None \<Longrightarrow>
   (fst (Delete l d db claims userID) = Some ErrForbidden)
     = (\<not> Authorized claims (RoleAdmin l) \<and> Subject claims \<noteq> userID)"
  by (auto simp: Delete_def split: prod.splits option.splits)

lemma QueryByID_forbidden_iff:
  "CheckID l userID = None \<Longrightarrow>
   (QueryByID l d db claims userID = Inl ErrForbidden)
     = (\<not> Authorized claims (RoleAdmin l)
        \<and> (Subject claims \<noteq> userID
           \<or> (case NamedQueryStruct d db (SelectUsersByID userID) of
                 Inl err \<Rightarrow> False
               | Inr usr \<Rightarrow> Subject claims \<noteq> ID usr)))"
  by (auto simp: QueryByID_def split: sum.splits)

lemma QueryByEmail_forbidden_iff:
  "(QueryByEmail l d db claims email = Inl ErrForbidden)
     = (case NamedQueryStruct d db (SelectUsersByEmail email) of
          Inl err \<Rightarrow> False
        | Inr usr \<Rightarrow> \<not> Authorized claims (RoleAdmin l) \<and> Subject claims \<noteq> ID usr)"
  by (auto simp: QueryByEmail_def split: sum.splits)

text \<open>
  Claim C1, as stated, at a malformed target ID. The caller \<open>U2\<close> is no admin and is not
  the target, and \<^verbatim>\<open>Delete\<close> and \<^verbatim>\<open>QueryByID\<close> return \<^verbatim>\<open>ErrInvalidID\<close>, not the forbidden
  error: the check of the ID comes first.
\<close>

theorem ownership_check_malformed_id_counterexample:
  "\<not> Authorized (claims_of ''U2'' [''USER'']) (RoleAdmin sample_lib)
   \<and> Subject (claims_of ''U2'' [''USER'']) \<noteq> ''not-a-uuid''
   \<and> fst (Delete sample_lib users_table [user_U1, user_U2]
            (claims_of ''U2'' [''USER'']) ''not-a-uuid'') = Some ErrInvalidID
   \<and> QueryByID sample_lib users_table [user_U1, user_U2]
        (claims_of ''U2'' [''USER'']) ''not-a-uuid'' = Inl ErrInvalidID
   \<and> ErrInvalidID \<noteq> ErrForbidden"
  by (simp add: Delete_def QueryByID_def sample_lib_def claims_of_def Authorized_def)

lemma Delete_proceeds:
  "CheckID l userID = None \<Longrightarrow> Authorized claims (RoleAdmin l) \<or> Subject claims = userID \<Longrightarrow>
   Delete l d db claims userID
     = (case NamedExecContext d db (DeleteUsers userID) of
          (Some err, db') \<Rightarrow> (Some (Errorf ''deleting userID[%s]: %w'' [userID] err), db')
        | (None, db') \<Rightarrow> (None, db'))"
  by (auto simp: Delete_def)

lemma QueryByID_proceeds:
  "CheckID l userID = None \<Longrightarrow> Authorized claims (RoleAdmin l) \<or> Subject claims = userID \<Longrightarrow>
   QueryByID l d db claims userID
     = (case NamedQueryStruct d db (SelectUsersByID userID) of
          Inl err \<Rightarrow>
            if err = ErrDBNotFound then Inl ErrNotFound
            else Inl (Errorf ''selecting userID[%q]: %w'' [userID] err)
        | Inr usr \<Rightarrow>
            if Authorized claims (RoleAdmin l) \<or> Subject claims = ID usr then Inr usr
            else Inl ErrForbidden)"
  by (auto simp: QueryByID_def split: sum.splits)

lemma QueryByEmail_proceeds:
  "QueryByEmail l d db claims email
     = (case NamedQueryStruct d db (SelectUsersByEmail email) of
          Inl err \<Rightarrow> Inl (Errorf ''selecting email[%q]: %w'' [email] err)
        | Inr usr \<Rightarrow>
            if Authorized claims (RoleAdmin l) \<or> Subject claims = ID usr then Inr usr
            else Inl ErrForbidden)"
  by (auto simp: QueryByEmail_def split: sum.splits)

text \<open>
  Claim C1, amended. For a well-formed target ID, \<^verbatim>\<open>Delete\<close> and \<^verbatim>\<open>QueryByID\<close> are permitted
  iff the caller has the admin role or the caller's subject is the target ID. A caller
  who is neither gets the forbidden error and the database is not called. For an admin or
  the owner the operation proceeds: \<^verbatim>\<open>Delete\<close> sends the \<^verbatim>\<open>DELETE\<close> statement and returns
  what the database returns (an error wrapped); \<^verbatim>\<open>QueryByID\<close> reads the row and returns it,
  unless the database fails or the row read has an ID that is not the caller's subject
  while the caller is no admin, which is forbidden again. So \<^verbatim>\<open>Delete\<close> returns the
  forbidden error iff the caller is neither admin nor owner of the target ID, and
  \<^verbatim>\<open>QueryByID\<close> iff the caller is no admin and owns neither the target ID nor the row read.
  \<^verbatim>\<open>QueryByEmail\<close> has no target ID to check before the lookup: it reads the row for the
  email, returns a failure of the lookup wrapped, returns the row to an admin and to the
  subject whose ID the row has, and the forbidden error to everybody else.
\<close>

theorem ownership_check:
  assumes "CheckID l userID = None"
  shows "(\<not> Authorized claims (RoleAdmin l) \<and> Subject claims \<noteq> userID \<longrightarrow>
            Delete l d db claims userID = (Some ErrForbidden, db)
          \<and> QueryByID l d db claims userID = Inl ErrForbidden)
       \<and> (Authorized claims (RoleAdmin l) \<or> Subject claims = userID \<longrightarrow>
            Delete l d db claims userID
              = (case NamedExecContext d db (DeleteUsers userID) of
                   (Some err, db') \<Rightarrow>
                     (Some (Errorf ''deleting userID[%s]: %w'' [userID] err), db')
                 | (None, db') \<Rightarrow> (None, db'))
          \<and> QueryByID l d db claims userID
              = (case NamedQueryStruct d db (SelectUsersByID userID) of
                   Inl err \<Rightarrow>
                     if err = ErrDBNotFound then Inl ErrNotFound
                     else Inl (Errorf ''selecting userID[%q]: %w'' [userID] err)
                 | Inr usr \<Rightarrow>
                     if Authorized claims (RoleAdmin l) \<or> Subject claims = ID usr then Inr usr
                     else Inl ErrForbidden))
       \<and> (fst (Delete l d db claims userID) = Some ErrForbidden)
           = (\<not> Authorized claims (RoleAdmin l) \<and> Subject claims \<noteq> userID)
       \<and> (QueryByID l d db claims userID = Inl ErrForbidden)
           = (\<not> Authorized claims (RoleAdmin l)
              \<and> (Subject claims \<noteq> userID
                 \<or> (case NamedQueryStruct d db (SelectUsersByID userID) of
                       Inl err \<Rightarrow> False
                     | Inr usr \<Rightarrow> Subject claims \<noteq> ID usr)))
       \<and> QueryByEmail l d db claims email
           = (case NamedQueryStruct d db (SelectUsersByEmail email) of
                Inl err \<Rightarrow> Inl (Errorf ''selecting email[%q]: %w'' [email] err)
              | Inr usr \<Rightarrow>
                  if Authorized claims (RoleAdmin l) \<or> Subject claims = ID usr then Inr usr
                  else Inl ErrForbidden)"
proof (intro conjI impI)
  assume n: "\<not> Authorized claims (RoleAdmin l) \<and> Subject claims \<noteq> userID"
  show "Delete l d db claims userID = (Some ErrForbidden, db)"
    using assms n by (simp add: Delete_def)
  show "QueryByID l d db claims userID = Inl ErrForbidden"
    using assms n by (simp add: QueryByID_def)
next
  assume p: "Authorized claims (RoleAdmin l) \<or> Subject claims = userID"
  show "Delete l d db claims userID
          = (case NamedExecContext d db (DeleteUsers userID) of
               (Some err, db') \<Rightarrow>
                 (Some (Errorf ''deleting userID[%s]: %w'' [userID] err), db')
             | (None, db') \<Rightarrow> (None, db'))"
    using assms p by (rule Delete_proceeds)
  show "QueryByID l d db claims userID
          = (case NamedQueryStruct d db (SelectUsersByID userID) of
               Inl err \<Rightarrow>
                 if err = ErrDBNotFound then Inl ErrNotFound
                 else Inl (Errorf ''selecting userID[%q]: %w'' [userID] err)
             | Inr usr \<Rightarrow>
                 if Authorized claims (RoleAdmin l) \<or> Subject claims = ID usr then Inr usr
                 else Inl ErrForbidden)"
    using assms p by (rule QueryByID_proceeds)
next
  show "(fst (Delete l d db claims userID) = Some ErrForbidden)
          = (\<not> Authorized claims (RoleAdmin l) \<and> Subject claims \<noteq> userID)"
    using assms by (rule Delete_forbidden_iff)
  show "(QueryByID l d db claims userID = Inl ErrForbidden)
          = (\<not> Authorized claims (RoleAdmin l)
             \<and> (Subject claims \<noteq> userID
                \<or> (case NamedQueryStruct d db (SelectUsersByID userID) of
                      Inl err \<Rightarrow> False
                    | Inr usr \<Rightarrow> Subject claims \<noteq> ID usr)))"
    using assms by (rule QueryByID_forbidden_iff)
  show "QueryByEmail l d db claims email
          = (case NamedQueryStruct d db (SelectUsersByEmail email) of
               Inl err \<Rightarrow> Inl (Errorf ''selecting email[%q]: %w'' [email] err)
             | Inr usr \<Rightarrow>
                 if Authorized claims (RoleAdmin l) \<or> Subject claims = ID usr then Inr usr
                 else Inl ErrForbidden)"
    by (rule QueryByEmail_proceeds)
qed

theorem ownership_check_witness:
  "CheckID sample_lib ''U1'' = None
   \<and> Delete sample_lib users_table [user_U1, user_U2] (claims_of ''U2'' [''USER'']) ''U1''
       = (Some ErrForbidden, [user_U1, user_U2])
   \<and> QueryByID sample_lib users_table [user_U1, user_U2] (claims_of ''U2'' [''USER'']) ''U1''
       = Inl ErrForbidden
   \<and> QueryByEmail sample_lib users_table [user_U1, user_U2] (claims_of ''U2'' [''USER''])
        ''a@x.com'' = Inl ErrForbidden
   \<and> Delete sample_lib users_table [user_U1, user_U2] (claims_of ''U2'' [''ADMIN'']) ''U1''
       = (None, [user_U2])
   \<and> QueryByID sample_lib users_table [user_U1, user_U2] (claims_of ''U2'' [''ADMIN'']) ''U1''
       = Inr user_U1
   \<and> Delete sample_lib users_table [user_U1, user_U2] (claims_of ''U1'' [''USER'']) ''U1''
       = (None, [user_U2])
   \<and> QueryByID sample_lib users_table [user_U1, user_U2] (claims_of ''U1'' [''USER'']) ''U1''
       = Inr user_U1
   \<and> QueryByEmail sample_lib users_table [user_U1, user_U2] (claims_of ''U1'' [''USER''])
        ''a@x.com'' = Inr user_U1"
proof -
  have h: "CheckID sample_lib ''U1'' = None"
    by (simp add: sample_lib_def)
  have q: "NamedQueryStruct users_table [user_U1, user_U2] (SelectUsersByID ''U1'') = Inr user_U1"
    by (simp add: users_table_def table_query_struct_def user_U1_def)
  have e: "NamedQueryStruct users_table [user_U1, user_U2] (SelectUsersByEmail ''a@x.com'')
             = Inr user_U1"
    by (simp add: users_table_def table_query_struct_def user_U1_def)
  have x: "NamedExecContext users_table [user_U1, user_U2] (DeleteUsers ''U1'')
             = (None, [user_U2])"
    by (simp add: users_table_def table_exec_def user_U1_def user_U2_def)
  have i: "ID user_U1 = ''U1''" by (simp add: user_U1_def)
  have r: "RoleAdmin sample_lib = ''ADMIN''" by (simp add: sample_lib_def)
  have stranger: "\<not> Authorized (claims_of ''U2'' [''USER'']) ''ADMIN''"
    "Subject (claims_of ''U2'' [''USER'']) \<noteq> ''U1''"
    by (simp_all add: claims_of_def Authorized_def)
  have admin: "Authorized (claims_of ''U2'' [''ADMIN'']) ''ADMIN''"
    by (simp add: claims_of_def Authorized_def)
  have owner: "Subject (claims_of ''U1'' [''USER'']) = ''U1''"
    by (simp add: claims_of_def)
  from ownership_check [OF h, of "claims_of ''U2'' [''USER'']" users_table
         "[user_U1, user_U2]" "''a@x.com''"] stranger
  have 1: "Delete sample_lib users_table [user_U1, user_U2] (claims_of ''U2'' [''USER'']) ''U1''
       = (Some ErrForbidden, [user_U1, user_U2])"
    "QueryByID sample_lib users_table [user_U1, user_U2] (claims_of ''U2'' [''USER'']) ''U1''
       = Inl ErrForbidden"
    "QueryByEmail sample_lib users_table [user_U1, user_U2] (claims_of ''U2'' [''USER''])
        ''a@x.com'' = Inl ErrForbidden"
    by (simp_all add: r e i)
  from ownership_check [OF h, of "claims_of ''U2'' [''ADMIN'']" users_table
         "[user_U1, user_U2]" "''a@x.com''"] admin
  have 2: "Delete sample_lib users_table [user_U1, user_U2] (claims_of ''U2'' [''ADMIN'']) ''U1''
       = (None, [user_U2])"
    "QueryByID sample_lib users_table [user_U1, user_U2] (claims_of ''U2'' [''ADMIN'']) ''U1''
       = Inr user_U1"
    by (simp_all add: r q x)
  from ownership_check [OF h, of "claims_of ''U1'' [''USER'']" users_table
         "[user_U1, user_U2]" "''a@x.com''"] owner
  have 3: "Delete sample_lib users_table [user_U1, user_U2] (claims_of ''U1'' [''USER'']) ''U1''
       = (None, [user_U2])"
    "QueryByID sample_lib users_table [user_U1, user_U2] (claims_of ''U1'' [''USER'']) ''U1''
       = Inr user_U1"
    "QueryByEmail sample_lib users_table [user_U1, user_U2] (claims_of ''U1'' [''USER''])
        ''a@x.com'' = Inr user_U1"
    by (simp_all add: r q x e i)
  from h 1 2 3 show ?thesis by (intro conjI)
qed

section \<open>No write for a caller who is neither admin nor owner\<close>

lemma QueryByID_not_owner:
  "\<not> Authorized claims (RoleAdmin l) \<Longrightarrow> Subject claims \<noteq> userID \<Longrightarrow>
   QueryByID l d db claims userID
     = (case CheckID l userID of Some err \<Rightarrow> Inl ErrInvalidID | None \<Rightarrow> Inl ErrForbidden)"
  by (simp add: QueryByID_def split: option.splits)

lemma Delete_not_owner:
  "\<not> Authorized claims (RoleAdmin l) \<Longrightarrow> Subject claims \<noteq> userID \<Longrightarrow>
   Delete l d db claims userID
     = (case CheckID l userID of
          Some err \<Rightarrow> (Some ErrInvalidID, db)
        | None \<Rightarrow> (Some ErrForbidden, db))"
  by (simp add: Delete_def split: option.splits)

lemma Update_not_owner:
  "\<not> Authorized claims (RoleAdmin l) \<Longrightarrow> Subject claims \<noteq> userID \<Longrightarrow>
   Update l d db claims userID uu now
     = (case CheckID l userID of
          Some err \<Rightarrow> (Some ErrInvalidID, db)
        | None \<Rightarrow>
            (case Check l uu of
               Some err \<Rightarrow> (Some (Errorf ''validating data: %w'' [] err), db)
             | None \<Rightarrow>
                 (Some (Errorf ''updating user userID[%s]: %w'' [userID] ErrForbidden), db)))"
  by (simp add: Update_def QueryByID_not_owner split: option.splits)

text \<open>
  Claim C5, as stated, at a malformed target ID. The caller \<open>U2\<close> is no admin and is not
  the target; \<^verbatim>\<open>Update\<close> and \<^verbatim>\<open>Delete\<close> return \<^verbatim>\<open>ErrInvalidID\<close>, which is not the
  forbidden error and does not wrap it.
\<close>

theorem forbidden_before_write_malformed_id_counterexample:
  "\<not> Authorized (claims_of ''U2'' [''USER'']) (RoleAdmin sample_lib)
   \<and> Subject (claims_of ''U2'' [''USER'']) \<noteq> ''not-a-uuid''
   \<and> Update sample_lib users_table [user_U1, user_U2] (claims_of ''U2'' [''USER''])
        ''not-a-uuid''
        \<lparr>uu_Name = Some ''Eve'', uu_Email = None, uu_Roles = None, uu_Password = None\<rparr> 5000
        = (Some ErrInvalidID, [user_U1, user_U2])
   \<and> Delete sample_lib users_table [user_U1, user_U2] (claims_of ''U2'' [''USER''])
        ''not-a-uuid'' = (Some ErrInvalidID, [user_U1, user_U2])
   \<and> \<not> errors_Is ErrInvalidID ErrForbidden"
  by (simp add: Update_def Delete_def sample_lib_def claims_of_def Authorized_def)

text \<open>
  Claim C5, amended. When the caller has not the admin role and the caller's subject
  differs from the target ID, \<^verbatim>\<open>Delete\<close> and \<^verbatim>\<open>Update\<close> return an error and leave the
  database state as it was, whatever the database does on a write: no statement reaches
  it. The error is \<^verbatim>\<open>ErrInvalidID\<close> for a malformed ID and, for \<^verbatim>\<open>Update\<close>, the wrapped
  validation error for an update that fails validation; otherwise it is the forbidden
  error, returned as it is by \<^verbatim>\<open>Delete\<close> and wrapped by \<^verbatim>\<open>Update\<close>.
\<close>

theorem forbidden_before_write:
  assumes "\<not> Authorized claims (RoleAdmin l)" and "Subject claims \<noteq> userID"
  shows "Delete l d db claims userID
           = (case CheckID l userID of
                Some err \<Rightarrow> (Some ErrInvalidID, db)
              | None \<Rightarrow> (Some ErrForbidden, db))
       \<and> Update l d db claims userID uu now
           = (case CheckID l userID of
                Some err \<Rightarrow> (Some ErrInvalidID, db)
              | None \<Rightarrow>
                  (case Check l uu of
                     Some err \<Rightarrow> (Some (Errorf ''validating data: %w'' [] err), db)
                   | None \<Rightarrow>
                       (Some (Errorf ''updating user userID[%s]: %w'' [userID] ErrForbidden),
                        db)))
       \<and> snd (Delete l d db claims userID) = db
       \<and> snd (Update l d db claims userID uu now) = db
       \<and> fst (Delete l d db claims userID) \<noteq> None
       \<and> fst (Update l d db claims userID uu now) \<noteq> None"
proof -
  note D = Delete_not_owner [OF assms, of d db]
  note U = Update_not_owner [OF assms, of d db uu now]
  have "snd (Delete l d db claims userID) = db" "fst (Delete l d db claims userID) \<noteq> None"
    by (simp_all add: D split: option.splits)
  moreover
  have "snd (Update l d db claims userID uu now) = db"
    "fst (Update l d db claims userID uu now) \<noteq> None"
    by (simp_all add: U split: option.splits)
  ultimately show ?thesis using D U by simp
qed

theorem forbidden_before_write_witness:
  "\<not> Authorized (claims_of ''U2'' [''USER'']) (RoleAdmin sample_lib)
   \<and> Subject (claims_of ''U2'' [''USER'']) \<noteq> ''U1''
   \<and> Delete sample_lib users_table [user_U1, user_U2] (claims_of ''U2'' [''USER'']) ''U1''
        = (Some ErrForbidden, [user_U1, user_U2])
   \<and> Update sample_lib users_table [user_U1, user_U2] (claims_of ''U2'' [''USER'']) ''U1''
        \<lparr>uu_Name = Some ''Eve'', uu_Email = None, uu_Roles = None, uu_Password = None\<rparr> 5000
        = (Some (Errorf ''updating user userID[%s]: %w'' [''U1''] ErrForbidden),
           [user_U1, user_U2])"
proof -
  have a: "\<not> Authorized (claims_of ''U2'' [''USER'']) (RoleAdmin sample_lib)"
    by (simp add: Authorized_def claims_of_def sample_lib_def)
  have s: "Subject (claims_of ''U2'' [''USER'']) \<noteq> ''U1''"
    by (simp add: claims_of_def)
  have c: "CheckID sample_lib ''U1'' = None"
    by (simp add: sample_lib_def)
  have v: "Check sample_lib
             \<lparr>uu_Name = Some ''Eve'', uu_Email = None, uu_Roles = None, uu_Password = None\<rparr> = None"
    by (simp add: sample_lib_def)
  from forbidden_before_write [OF a s, of users_table "[user_U1, user_U2]"
         "\<lparr>uu_Name = Some ''Eve'', uu_Email = None, uu_Roles = None, uu_Password = None\<rparr>" 5000]
       a s
  show ?thesis by (simp add: c v)
qed

section \<open>What Update writes\<close>

lemma QueryByID_table_Inr:
  "QueryByID l users_table rows claims userID = Inr usr \<Longrightarrow>
   find (\<lambda>r. ID r = userID) rows = Some usr"
  by (auto simp: QueryByID_def users_table_def table_query_struct_def
        split: option.splits if_splits)

lemma find_ID: "find (\<lambda>r. ID r = userID) rows = Some usr \<Longrightarrow> ID usr = userID"
  by (induction rows) (auto split: if_splits)

text \<open>
  A successful \<^verbatim>\<open>Update\<close> has read a user and has sent one \<^verbatim>\<open>UPDATE\<close> statement, bound
  to that user with the given attributes replaced.
\<close>

lemma Update_success:
  assumes "Update l d db claims userID uu now = (None, db')"
  shows "\<exists>usr w. QueryByID l d db claims userID = Inr usr
           \<and> NamedExecContext d db (UpdateUsers w) = (None, db')
           \<and> ID w = ID usr
           \<and> Name w = (case uu_Name uu of None \<Rightarrow> Name usr | Some n \<Rightarrow> n)
           \<and> Email w = (case uu_Email uu of None \<Rightarrow> Email usr | Some e \<Rightarrow> e)
           \<and> Roles w = (case uu_Roles uu of None \<Rightarrow> Roles usr | Some rs \<Rightarrow> rs)
           \<and> (case uu_Password uu of
                 None \<Rightarrow> PasswordHash w = PasswordHash usr
               | Some p \<Rightarrow> GenerateFromPassword l p = Inr (PasswordHash w))
           \<and> DateCreated w = DateCreated usr
           \<and> DateUpdated w = now"
proof -
  from assms obtain usr where q: "QueryByID l d db claims userID = Inr usr"
    by (auto simp: Update_def split: option.splits sum.splits if_splits)
  define usr3 where "usr3 =
    (case uu_Roles uu of
       None \<Rightarrow>
         (case uu_Email uu of
            None \<Rightarrow> (case uu_Name uu of None \<Rightarrow> usr | Some n \<Rightarrow> usr\<lparr>Name := n\<rparr>)
          | Some e \<Rightarrow> (case uu_Name uu of None \<Rightarrow> usr | Some n \<Rightarrow> usr\<lparr>Name := n\<rparr>)\<lparr>Email := e\<rparr>)
     | Some rs \<Rightarrow>
         (case uu_Email uu of
            None \<Rightarrow> (case uu_Name uu of None \<Rightarrow> usr | Some n \<Rightarrow> usr\<lparr>Name := n\<rparr>)
          | Some e \<Rightarrow> (case uu_Name uu of None \<Rightarrow> usr | Some n \<Rightarrow> usr\<lparr>Name := n\<rparr>)\<lparr>Email := e\<rparr>)
         \<lparr>Roles := rs\<rparr>)"
  have f3: "ID usr3 = ID usr" "DateCreated usr3 = DateCreated usr"
    "PasswordHash usr3 = PasswordHash usr"
    "Name usr3 = (case uu_Name uu of None \<Rightarrow> Name usr | Some n \<Rightarrow> n)"
    "Email usr3 = (case uu_Email uu of None \<Rightarrow> Email usr | Some e \<Rightarrow> e)"
    "Roles usr3 = (case uu_Roles uu of None \<Rightarrow> Roles usr | Some rs \<Rightarrow> rs)"
    by (simp_all add: usr3_def split: option.splits)
  from assms q obtain usr4 where
    p: "(case uu_Password uu of
           None \<Rightarrow> Inr usr3
         | Some p \<Rightarrow>
             (case GenerateFromPassword l p of
                Inl err \<Rightarrow> Inl (Errorf ''generating password hash: %w'' [] err)
              | Inr pw \<Rightarrow> Inr (usr3\<lparr>PasswordHash := pw\<rparr>))) = Inr usr4"
    and x: "NamedExecContext d db (UpdateUsers (usr4\<lparr>DateUpdated := now\<rparr>)) = (None, db')"
    by (auto simp: Update_def Let_def usr3_def split: option.splits sum.splits if_splits prod.splits)
  from p have f4: "ID usr4 = ID usr3" "DateCreated usr4 = DateCreated usr3"
    "Name usr4 = Name usr3" "Email usr4 = Email usr3" "Roles usr4 = Roles usr3"
    "(case uu_Password uu of
        None \<Rightarrow> PasswordHash usr4 = PasswordHash usr3
      | Some p \<Rightarrow> GenerateFromPassword l p = Inr (PasswordHash usr4))"
    by (auto split: option.splits sum.splits)
  show ?thesis
    apply (rule exI [of _ usr])
    apply (rule exI [of _ "usr4\<lparr>DateUpdated := now\<rparr>"])
    using q x f3 f4 by (simp split: option.splits)
qed

lemma find_map_update:
  "find (\<lambda>r. ID r = userID) rows = Some old \<Longrightarrow> (\<And>r. ID (f r) = ID r) \<Longrightarrow>
   find (\<lambda>r. ID r = userID) (map (\<lambda>r. if ID r = userID then f r else r) rows) = Some (f old)"
  by (induction rows) (auto split: if_splits)

lemma filter_map_others:
  "(\<And>r. ID (f r) = ID r) \<Longrightarrow>
   filter (\<lambda>r. ID r \<noteq> userID) (map (\<lambda>r. if ID r = userID then f r else r) rows)
     = filter (\<lambda>r. ID r \<noteq> userID) rows"
  by (induction rows) auto

text \<open>
  On the table of users: the effect of a successful \<^verbatim>\<open>Update\<close> on the stored rows.
\<close>

lemma Update_table_effect:
  assumes "Update l users_table rows claims userID uu now = (None, rows')"
  shows "\<exists>old new.
           find (\<lambda>r. ID r = userID) rows = Some old
         \<and> find (\<lambda>r. ID r = userID) rows' = Some new
         \<and> ID new = ID old
         \<and> Name new = (case uu_Name uu of None \<Rightarrow> Name old | Some n \<Rightarrow> n)
         \<and> Email new = (case uu_Email uu of None \<Rightarrow> Email old | Some e \<Rightarrow> e)
         \<and> Roles new = (case uu_Roles uu of None \<Rightarrow> Roles old | Some rs \<Rightarrow> rs)
         \<and> (case uu_Password uu of
               None \<Rightarrow> PasswordHash new = PasswordHash old
             | Some p \<Rightarrow> GenerateFromPassword l p = Inr (PasswordHash new))
         \<and> DateCreated new = DateCreated old
         \<and> DateUpdated new = now
         \<and> filter (\<lambda>r. ID r \<noteq> userID) rows' = filter (\<lambda>r. ID r \<noteq> userID) rows"
proof -
  from Update_success [OF assms] obtain usr w where
    q: "QueryByID l users_table rows claims userID = Inr usr"
    and x: "NamedExecContext users_table rows (UpdateUsers w) = (None, rows')"
    and w: "ID w = ID usr"
      "Name w = (case uu_Name uu of None \<Rightarrow> Name usr | Some n \<Rightarrow> n)"
      "Email w = (case uu_Email uu of None \<Rightarrow> Email usr | Some e \<Rightarrow> e)"
      "Roles w = (case uu_Roles uu of None \<Rightarrow> Roles usr | Some rs \<Rightarrow> rs)"
      "(case uu_Password uu of
          None \<Rightarrow> PasswordHash w = PasswordHash usr
        | Some p \<Rightarrow> GenerateFromPassword l p = Inr (PasswordHash w))"
      "DateUpdated w = now"
    by blast
  have old: "find (\<lambda>r. ID r = userID) rows = Some usr"
    using q by (rule QueryByID_table_Inr)
  then have id: "ID usr = userID" by (rule find_ID)
  define f :: "User \<Rightarrow> User" where "f = (\<lambda>r. r\<lparr>Name := Name w, Email := Email w, Roles := Roles w,
                              PasswordHash := PasswordHash w, DateUpdated := DateUpdated w\<rparr>)"
  have fid: "\<And>r. ID (f r) = ID r" by (simp add: f_def)
  have rows': "rows' = map (\<lambda>r. if ID r = userID then f r else r) rows"
    unfolding f_def using x by (auto simp: users_table_def table_exec_def w(1) id)
  have new: "find (\<lambda>r. ID r = userID) rows' = Some (f usr)"
    unfolding rows' using old fid by (rule find_map_update)
  have others: "filter (\<lambda>r. ID r \<noteq> userID) rows' = filter (\<lambda>r. ID r \<noteq> userID) rows"
    unfolding rows' using fid by (rule filter_map_others)
  have fields: "ID (f usr) = ID usr" "Name (f usr) = Name w" "Email (f usr) = Email w"
    "Roles (f usr) = Roles w" "PasswordHash (f usr) = PasswordHash w"
    "DateCreated (f usr) = DateCreated usr" "DateUpdated (f usr) = DateUpdated w"
    by (simp_all add: f_def)
  show ?thesis
    apply (rule exI [of _ usr])
    apply (rule exI [of _ "f usr"])
    using old new others w by (simp add: fields split: option.splits)
qed

lemma Update_table_succeeds_iff:
  "(fst (Update l users_table rows claims userID uu now) = None)
     = (CheckID l userID = None \<and> Check l uu = None
        \<and> (Authorized claims (RoleAdmin l) \<or> Subject claims = userID)
        \<and> find (\<lambda>r. ID r = userID) rows \<noteq> None
        \<and> (case uu_Password uu of
              None \<Rightarrow> True
            | Some p \<Rightarrow> (case GenerateFromPassword l p of Inl err \<Rightarrow> False | Inr pw \<Rightarrow> True)))"
  by (auto simp: Update_def QueryByID_def users_table_def table_query_struct_def table_exec_def
        Let_def split: option.splits sum.splits dest: find_ID)

lemma Update_table_failure:
  "fst (Update l users_table rows claims userID uu now) \<noteq> None \<Longrightarrow>
   snd (Update l users_table rows claims userID uu now) = rows"
  by (auto simp: Update_def users_table_def table_exec_def Let_def
        split: option.splits sum.splits)

text \<open>
  Claim C10, as stated, at a call that is refused. The caller \<open>U2\<close> is no admin and asks
  to rename the user \<open>U1\<close> at the time 5000: \<^verbatim>\<open>Update\<close> returns an error, and the stored
  user \<open>U1\<close> keeps the \<^verbatim>\<open>DateUpdated\<close> 1000 it had. So \<^verbatim>\<open>DateUpdated\<close> is not set to the
  supplied \<open>now\<close> by every call.
\<close>

theorem Update_refused_counterexample:
  "fst (Update sample_lib users_table [user_U1, user_U2] (claims_of ''U2'' [''USER'']) ''U1''
          \<lparr>uu_Name = Some ''Eve'', uu_Email = None, uu_Roles = None, uu_Password = None\<rparr> 5000)
     = Some (Errorf ''updating user userID[%s]: %w'' [''U1''] ErrForbidden)
   \<and> map_option DateUpdated
        (find (\<lambda>r. ID r = ''U1'')
          (snd (Update sample_lib users_table [user_U1, user_U2] (claims_of ''U2'' [''USER''])
                  ''U1''
                  \<lparr>uu_Name = Some ''Eve'', uu_Email = None, uu_Roles = None,
                    uu_Password = None\<rparr> 5000)))
       = Some 1000"
  by (simp add: Update_def QueryByID_def sample_lib_def claims_of_def Authorized_def
        user_U1_def)

text \<open>
  Claim C10, amended. On the table of users, a call of \<^verbatim>\<open>Update\<close> succeeds exactly when
  the target ID is well-formed, the update passes validation, the caller has the admin
  role or is the target, a user with the target ID is stored, and the password, when one
  is given, is hashed without error. A call that fails leaves every stored user as it
  was. After a call that succeeds, the stored user with the target ID (\<open>old\<close> before,
  \<open>new\<close> after) has the name, the email and the roles of the \<^verbatim>\<open>UpdateUser\<close> where its field
  is not nil and those of \<open>old\<close> where it is nil; the password hash is the hash of the
  given password, or that of \<open>old\<close> for a nil password; the ID and \<^verbatim>\<open>DateCreated\<close> are those
  of \<open>old\<close>; \<^verbatim>\<open>DateUpdated\<close> is the supplied \<open>now\<close>; and the rows of the other users are as
  before.
\<close>

theorem Update_replaces_only_given_attributes:
  "(fst (Update l users_table rows claims userID uu now) = None)
     = (CheckID l userID = None \<and> Check l uu = None
        \<and> (Authorized claims (RoleAdmin l) \<or> Subject claims = userID)
        \<and> find (\<lambda>r. ID r = userID) rows \<noteq> None
        \<and> (case uu_Password uu of
              None \<Rightarrow> True
            | Some p \<Rightarrow> (case GenerateFromPassword l p of Inl err \<Rightarrow> False | Inr pw \<Rightarrow> True)))
   \<and> (fst (Update l users_table rows claims userID uu now) \<noteq> None \<longrightarrow>
        snd (Update l users_table rows claims userID uu now) = rows)
   \<and> (fst (Update l users_table rows claims userID uu now) = None \<longrightarrow>
        (\<exists>old new.
           find (\<lambda>r. ID r = userID) rows = Some old
         \<and> find (\<lambda>r. ID r = userID) (snd (Update l users_table rows claims userID uu now))
             = Some new
         \<and> ID new = ID old
         \<and> Name new = (case uu_Name uu of None \<Rightarrow> Name old | Some n \<Rightarrow> n)
         \<and> Email new = (case uu_Email uu of None \<Rightarrow> Email old | Some e \<Rightarrow> e)
         \<and> Roles new = (case uu_Roles uu of None \<Rightarrow> Roles old | Some rs \<Rightarrow> rs)
         \<and> (case uu_Password uu of
               None \<Rightarrow> PasswordHash new = PasswordHash old
             | Some p \<Rightarrow> GenerateFromPassword l p = Inr (PasswordHash new))
         \<and> DateCreated new = DateCreated old
         \<and> DateUpdated new = now
         \<and> filter (\<lambda>r. ID r \<noteq> userID) (snd (Update l users_table rows claims userID uu now))
             = filter (\<lambda>r. ID r \<noteq> userID) rows))"
proof (intro conjI impI)
  show "(fst (Update l users_table rows claims userID uu now) = None)
     = (CheckID l userID = None \<and> Check l uu = None
        \<and> (Authorized claims (RoleAdmin l) \<or> Subject claims = userID)
        \<and> find (\<lambda>r. ID r = userID) rows \<noteq> None
        \<and> (case uu_Password uu of
              None \<Rightarrow> True
            | Some p \<Rightarrow> (case GenerateFromPassword l p of Inl err \<Rightarrow> False | Inr pw \<Rightarrow> True)))"
    by (rule Update_table_succeeds_iff)
next
  assume "fst (Update l users_table rows claims userID uu now) \<noteq> None"
  then show "snd (Update l users_table rows claims userID uu now) = rows"
    by (rule Update_table_failure)
next
  assume "fst (Update l users_table rows claims userID uu now) = None"
  then have "Update l users_table rows claims userID uu now
               = (None, snd (Update l users_table rows claims userID uu now))"
    by (simp add: prod_eq_iff)
  then show "\<exists>old new.
           find (\<lambda>r. ID r = userID) rows = Some old
         \<and> find (\<lambda>r. ID r = userID) (snd (Update l users_table rows claims userID uu now))
             = Some new
         \<and> ID new = ID old
         \<and> Name new = (case uu_Name uu of None \<Rightarrow> Name old | Some n \<Rightarrow> n)
         \<and> Email new = (case uu_Email uu of None \<Rightarrow> Email old | Some e \<Rightarrow> e)
         \<and> Roles new = (case uu_Roles uu of None \<Rightarrow> Roles old | Some rs \<Rightarrow> rs)
         \<and> (case uu_Password uu of
               None \<Rightarrow> PasswordHash new = PasswordHash old
             | Some p \<Rightarrow> GenerateFromPassword l p = Inr (PasswordHash new))
         \<and> DateCreated new = DateCreated old
         \<and> DateUpdated new = now
         \<and> filter (\<lambda>r. ID r \<noteq> userID) (snd (Update l users_table rows claims userID uu now))
             = filter (\<lambda>r. ID r \<noteq> userID) rows"
    by (rule Update_table_effect)
qed

theorem Update_replaces_only_given_attributes_witness:
  "Update sample_lib users_table [user_U1, user_U2] (claims_of ''U1'' [''USER'']) ''U1''
     \<lparr>uu_Name = Some ''Eve'', uu_Email = None, uu_Roles = None, uu_Password = None\<rparr> 5000
     = (None, [user_U1\<lparr>Name := ''Eve'', DateUpdated := 5000\<rparr>, user_U2])
   \<and> (\<exists>old new.
         find (\<lambda>r. ID r = ''U1'') [user_U1, user_U2] = Some old
       \<and> find (\<lambda>r. ID r = ''U1'') [user_U1\<lparr>Name := ''Eve'', DateUpdated := 5000\<rparr>, user_U2]
           = Some new
       \<and> Name new = ''Eve''
       \<and> Email new = Email old
       \<and> Roles new = Roles old
       \<and> PasswordHash new = PasswordHash old
       \<and> DateCreated new = DateCreated old
       \<and> DateUpdated new = 5000)
   \<and> fst (Update sample_lib users_table [user_U1, user_U2] (claims_of ''U2'' [''ADMIN''])
            ''not-a-uuid''
            \<lparr>uu_Name = Some ''Eve'', uu_Email = None, uu_Roles = None, uu_Password = None\<rparr> 5000)
       \<noteq> None
   \<and> snd (Update sample_lib users_table [user_U1, user_U2] (claims_of ''U2'' [''ADMIN''])
            ''not-a-uuid''
            \<lparr>uu_Name = Some ''Eve'', uu_Email = None, uu_Roles = None, uu_Password = None\<rparr> 5000)
       = [user_U1, user_U2]"
proof -
  let ?uu = "\<lparr>uu_Name = Some ''Eve'', uu_Email = None, uu_Roles = None, uu_Password = None\<rparr>"
  have h: "Update sample_lib users_table [user_U1, user_U2] (claims_of ''U1'' [''USER'']) ''U1''
             ?uu 5000
     = (None, [user_U1\<lparr>Name := ''Eve'', DateUpdated := 5000\<rparr>, user_U2])"
    by (simp add: Update_def QueryByID_def users_table_def table_query_struct_def
          table_exec_def sample_lib_def claims_of_def Authorized_def user_U1_def user_U2_def)
  note ok = Update_replaces_only_given_attributes
              [of sample_lib "[user_U1, user_U2]" "claims_of ''U1'' [''USER'']" "''U1''" ?uu 5000]
  from ok h obtain old new where
    "find (\<lambda>r. ID r = ''U1'') [user_U1, user_U2] = Some old"
    "find (\<lambda>r. ID r = ''U1'') [user_U1\<lparr>Name := ''Eve'', DateUpdated := 5000\<rparr>, user_U2]
       = Some new"
    "Name new = ''Eve''" "Email new = Email old" "Roles new = Roles old"
    "PasswordHash new = PasswordHash old" "DateCreated new = DateCreated old"
    "DateUpdated new = 5000"
    by auto
  then have e: "\<exists>old new.
         find (\<lambda>r. ID r = ''U1'') [user_U1, user_U2] = Some old
       \<and> find (\<lambda>r. ID r = ''U1'') [user_U1\<lparr>Name := ''Eve'', DateUpdated := 5000\<rparr>, user_U2]
           = Some new
       \<and> Name new = ''Eve''
       \<and> Email new = Email old
       \<and> Roles new = Roles old
       \<and> PasswordHash new = PasswordHash old
       \<and> DateCreated new = DateCreated old
       \<and> DateUpdated new = 5000"
    by blast
  note bad = Update_replaces_only_given_attributes
               [of sample_lib "[user_U1, user_U2]" "claims_of ''U2'' [''ADMIN'']" "''not-a-uuid''"
                   ?uu 5000]
  have c: "CheckID sample_lib ''not-a-uuid'' \<noteq> None"
    by (simp add: sample_lib_def)
  from bad c have f: "fst (Update sample_lib users_table [user_U1, user_U2]
            (claims_of ''U2'' [''ADMIN'']) ''not-a-uuid'' ?uu 5000) \<noteq> None"
    by blast
  with bad have u: "snd (Update sample_lib users_table [user_U1, user_U2]
            (claims_of ''U2'' [''ADMIN'']) ''not-a-uuid'' ?uu 5000) = [user_U1, user_U2]"
    by blast
  from h e f u show ?thesis by (intro conjI)
qed

section \<open>Authenticate\<close>

lemma Authenticate_success:
  "NamedQueryStruct d db (SelectUsersByEmail email) = Inr usr \<Longrightarrow>
   CompareHashAndPassword l (PasswordHash usr) password = None \<Longrightarrow>
   Authenticate l d db now wall1 wall2 email password
     = Inr \<lparr> Issuer = ''service project'', Subject = ID usr,
             ExpiresAt = Some (jwt_NewNumericDate (wall1 + time_Hour)),
             IssuedAt = Some (jwt_NewNumericDate wall2),
             claims_Roles = Roles usr \<rparr>"
  by (simp add: Authenticate_def)

lemma Authenticate_not_found:
  "NamedQueryStruct d db (SelectUsersByEmail email) = Inl ErrDBNotFound \<Longrightarrow>
   Authenticate l d db now wall1 wall2 email password
     = Inl (Errorf ''selecting email[%q]: %w'' [email] ErrDBNotFound)"
  by (simp add: Authenticate_def)

lemma Query_not_found:
  "NamedQuerySlice d db (SelectUsersPage ((pageNumber - 1) * rowsPerPage) rowsPerPage)
     = Inl ErrDBNotFound \<Longrightarrow>
   Query d db pageNumber rowsPerPage = Inl (Errorf ''selecting users: %w'' [] ErrDBNotFound)"
  by (simp add: Query_def)

lemma QueryByID_not_found:
  "CheckID l userID = None \<Longrightarrow> Authorized claims (RoleAdmin l) \<or> Subject claims = userID \<Longrightarrow>
   NamedQueryStruct d db (SelectUsersByID userID) = Inl ErrDBNotFound \<Longrightarrow>
   QueryByID l d db claims userID = Inl ErrNotFound"
  by (auto simp: QueryByID_def)

text \<open>
  Claim C2. The stored user \<open>U1\<close> has the email \<^verbatim>\<open>a@x.com\<close> and the hash of the password
  \<^verbatim>\<open>secret\<close>. \<^verbatim>\<open>Authenticate\<close> is called with \<open>now\<close> = 1 s while the wall clock reads 6 s.
  The claims returned have the subject and the roles of the stored user, but the expiry
  is the wall clock's reading plus one hour and the issued-at is the wall clock's reading:
  neither comes from the supplied \<open>now\<close>.
\<close>

theorem Authenticate_reads_wall_clock:
  "Authenticate sample_lib users_table [user_U1, user_U2]
     1000000000 6000000000 6000000000 ''a@x.com'' ''secret''
     = Inr \<lparr> Issuer = ''service project'', Subject = ''U1'',
             ExpiresAt = Some 3606000000000, IssuedAt = Some 6000000000,
             claims_Roles = [''USER''] \<rparr>
   \<and> (3606000000000 :: int) \<noteq> 1000000000 + time_Hour
   \<and> (6000000000 :: int) \<noteq> 1000000000"
  by (simp add: Authenticate_def users_table_def table_query_struct_def sample_lib_def
        user_U1_def user_U2_def jwt_NewNumericDate_def time_Hour_def)

text \<open>
  Claim C6. No stored user has the email \<^verbatim>\<open>nobody@x.com\<close>, so the query for one row
  reports the not-found condition of package database. \<^verbatim>\<open>Authenticate\<close> does not return
  \<^verbatim>\<open>ErrNotFound\<close>: it returns the condition wrapped in a \<^verbatim>\<open>selecting email\<close> error.
\<close>

theorem Authenticate_wraps_not_found:
  "NamedQueryStruct users_table [user_U1, user_U2] (SelectUsersByEmail ''nobody@x.com'')
     = Inl ErrDBNotFound
   \<and> Authenticate sample_lib users_table [user_U1, user_U2]
        1000000000 6000000000 6000000000 ''nobody@x.com'' ''secret''
        = Inl (Errorf ''selecting email[%q]: %w'' [''nobody@x.com''] ErrDBNotFound)
   \<and> Errorf ''selecting email[%q]: %w'' [''nobody@x.com''] ErrDBNotFound \<noteq> ErrNotFound"
  by (simp add: Authenticate_def users_table_def table_query_struct_def
        user_U1_def user_U2_def)

section \<open>fe_Field errors and the error response\<close>

lemma Fields_loop_map_of:
  "Fields_loop flds m = m ++ map_of (rev (map (\<lambda>fld. (fe_Field fld, fe_Error fld)) flds))"
proof (induction flds arbitrary: m)
  case Nil
  show ?case by simp
next
  case (Cons fld rest)
  show ?case
    by (rule ext) (simp add: Cons.IH map_add_def split: option.splits)
qed

lemma Fields_map_of:
  "Fields (Some flds) = map_of (rev (map (\<lambda>fld. (fe_Field fld, fe_Error fld)) flds))"
  by (simp add: Fields_def Fields_loop_map_of)

lemma Fields_dom: "dom (Fields (Some flds)) = fe_Field ` set flds"
  by (simp add: Fields_map_of dom_map_of_conv_image_fst image_image)

lemma Fields_some_message:
  assumes "fld \<in> set flds"
  shows "\<exists>fld' \<in> set flds. fe_Field fld' = fe_Field fld
           \<and> Fields (Some flds) (fe_Field fld) = Some (fe_Error fld')"
proof -
  from assms have "fe_Field fld \<in> dom (Fields (Some flds))"
    by (simp add: Fields_dom)
  then obtain msg where m: "Fields (Some flds) (fe_Field fld) = Some msg"
    by blast
  then have "(fe_Field fld, msg) \<in> set (rev (map (\<lambda>fld. (fe_Field fld, fe_Error fld)) flds))"
    unfolding Fields_map_of by (rule map_of_SomeD)
  then obtain fld' where "fld' \<in> set flds" "fe_Field fld' = fe_Field fld" "fe_Error fld' = msg"
    by auto
  with m show ?thesis by blast
qed

lemma Fields_distinct:
  assumes "distinct (map fe_Field flds)" and "fld \<in> set flds"
  shows "Fields (Some flds) (fe_Field fld) = Some (fe_Error fld)"
proof -
  have "distinct (map fst (rev (map (\<lambda>fld. (fe_Field fld, fe_Error fld)) flds)))"
    using assms(1) by (simp add: rev_map [symmetric] comp_def)
  moreover have "(fe_Field fld, fe_Error fld) \<in> set (rev (map (\<lambda>fld. (fe_Field fld, fe_Error fld)) flds))"
    using assms(2) by auto
  ultimately show ?thesis
    unfolding Fields_map_of by (simp only: map_of_eq_Some_iff)
qed

text \<open>
  Claim C7. The document that \<^verbatim>\<open>FieldErrors.Error\<close> returns for a collection is an array
  with one entry for every field error of the collection, in order, each with the field
  name and its message: that holds for every collection, the non-empty ones among them.
  The map that \<^verbatim>\<open>FieldErrors.Fields\<close> returns has an entry for exactly the field names of
  the collection, each with a message the collection has for that name, and with the
  message of each field error when no name occurs twice.
\<close>

theorem FieldErrors_enumerate_every_field:
  "length (json_elements (FieldErrors_Error (Some flds))) = length flds
   \<and> (\<forall>i < length flds.
         json_elements (FieldErrors_Error (Some flds)) ! i
           = JObject [(''field'', JString (fe_Field (flds ! i))),
                      (''error'', JString (fe_Error (flds ! i)))])
   \<and> (\<forall>fld \<in> set flds.
         JObject [(''field'', JString (fe_Field fld)), (''error'', JString (fe_Error fld))]
           \<in> set (json_elements (FieldErrors_Error (Some flds))))
   \<and> dom (Fields (Some flds)) = fe_Field ` set flds
   \<and> (\<forall>fld \<in> set flds. \<exists>fld' \<in> set flds.
         fe_Field fld' = fe_Field fld \<and> Fields (Some flds) (fe_Field fld) = Some (fe_Error fld'))
   \<and> (distinct (map fe_Field flds) \<longrightarrow>
         (\<forall>fld \<in> set flds. Fields (Some flds) (fe_Field fld) = Some (fe_Error fld)))"
proof -
  have e: "json_elements (FieldErrors_Error (Some flds)) = map json_Marshal_FieldError flds"
    by (simp add: json_elements_def FieldErrors_Error_def json_Marshal_FieldErrors_def)
  have 1: "length (json_elements (FieldErrors_Error (Some flds))) = length flds"
    by (simp add: e)
  have 2: "\<forall>i < length flds.
         json_elements (FieldErrors_Error (Some flds)) ! i
           = JObject [(''field'', JString (fe_Field (flds ! i))),
                      (''error'', JString (fe_Error (flds ! i)))]"
    by (simp add: e json_Marshal_FieldError_def)
  have 3: "\<forall>fld \<in> set flds.
         JObject [(''field'', JString (fe_Field fld)), (''error'', JString (fe_Error fld))]
           \<in> set (json_elements (FieldErrors_Error (Some flds)))"
    by (auto simp: e json_Marshal_FieldError_def)
  from 1 2 3 Fields_dom [of flds] Fields_some_message [of _ flds] Fields_distinct [of flds]
  show ?thesis by blast
qed

theorem FieldErrors_enumerate_every_field_witness:
  "FieldErrors_Error
     (Some [\<lparr>fe_Field = ''email'', fe_Error = ''email must be a valid email address''\<rparr>,
            \<lparr>fe_Field = ''name'', fe_Error = ''name is a required field''\<rparr>])
     = JArray [JObject [(''field'', JString ''email''),
                        (''error'', JString ''email must be a valid email address'')],
               JObject [(''field'', JString ''name''),
                        (''error'', JString ''name is a required field'')]]
   \<and> JObject [(''field'', JString ''name''), (''error'', JString ''name is a required field'')]
       \<in> set (json_elements (FieldErrors_Error
           (Some [\<lparr>fe_Field = ''email'', fe_Error = ''email must be a valid email address''\<rparr>,
                  \<lparr>fe_Field = ''name'', fe_Error = ''name is a required field''\<rparr>])))
   \<and> Fields
       (Some [\<lparr>fe_Field = ''email'', fe_Error = ''email must be a valid email address''\<rparr>,
              \<lparr>fe_Field = ''name'', fe_Error = ''name is a required field''\<rparr>]) ''name''
       = Some ''name is a required field''"
proof -
  let ?flds = "[\<lparr>fe_Field = ''email'', fe_Error = ''email must be a valid email address''\<rparr>,
                \<lparr>fe_Field = ''name'', fe_Error = ''name is a required field''\<rparr>]"
  have m: "\<lparr>fe_Field = ''name'', fe_Error = ''name is a required field''\<rparr> \<in> set ?flds"
    by simp
  have d: "distinct (map fe_Field ?flds)"
    by simp
  have v: "FieldErrors_Error (Some ?flds)
     = JArray [JObject [(''field'', JString ''email''),
                        (''error'', JString ''email must be a valid email address'')],
               JObject [(''field'', JString ''name''),
                        (''error'', JString ''name is a required field'')]]"
    by (simp add: FieldErrors_Error_def json_Marshal_FieldErrors_def json_Marshal_FieldError_def)
  from FieldErrors_enumerate_every_field [of ?flds] m d
  have "JObject [(''field'', JString ''name''), (''error'', JString ''name is a required field'')]
          \<in> set (json_elements (FieldErrors_Error (Some ?flds)))"
    and "Fields (Some ?flds) ''name'' = Some ''name is a required field''"
    by force+
  with v show ?thesis by simp
qed

text \<open>
  Claim C8, as stated, at a response with field errors. \<^verbatim>\<open>ErrorResponse.Fields\<close> is
  declared a string, so the member \<^verbatim>\<open>fields\<close> of the body is a JSON string, not an array
  of objects.
\<close>

theorem ErrorResponse_fields_counterexample:
  "json_Marshal_ErrorResponse
     \<lparr>er_Error = ''data validation error'', er_Fields = ''email is not valid''\<rparr>
     = JObject [(''error'', JString ''data validation error''),
                (''fields'', JString ''email is not valid'')]
   \<and> \<not> spec_error_body (json_Marshal_ErrorResponse
          \<lparr>er_Error = ''data validation error'', er_Fields = ''email is not valid''\<rparr>)"
  by (simp add: json_Marshal_ErrorResponse_def spec_error_body_def json_member_def
        is_JString_def)

text \<open>
  Claim C8, amended. The body of every \<^verbatim>\<open>ErrorResponse\<close> has a member \<^verbatim>\<open>error\<close> that is
  the string \<^verbatim>\<open>Error\<close>, and a member \<^verbatim>\<open>fields\<close> only when \<^verbatim>\<open>Fields\<close> is not empty,
  which then is the string \<^verbatim>\<open>Fields\<close>. The body has the shape of the specification
  exactly when \<^verbatim>\<open>Fields\<close> is empty.
\<close>

theorem ErrorResponse_body_shape:
  "declared_error_body (json_Marshal_ErrorResponse er)
   \<and> json_member (json_Marshal_ErrorResponse er) ''error'' = Some (JString (er_Error er))
   \<and> json_member (json_Marshal_ErrorResponse er) ''fields''
       = (if er_Fields er = [] then None else Some (JString (er_Fields er)))
   \<and> spec_error_body (json_Marshal_ErrorResponse er) = (er_Fields er = [])"
  by (simp add: json_Marshal_ErrorResponse_def declared_error_body_def spec_error_body_def
        json_member_def is_JString_def)

theorem ErrorResponse_body_shape_witness:
  "declared_error_body (json_Marshal_ErrorResponse
      \<lparr>er_Error = ''data validation error'', er_Fields = ''email is not valid''\<rparr>)
   \<and> json_member (json_Marshal_ErrorResponse
        \<lparr>er_Error = ''data validation error'', er_Fields = ''email is not valid''\<rparr>) ''fields''
       = Some (JString ''email is not valid'')
   \<and> json_member (json_Marshal_ErrorResponse
        \<lparr>er_Error = ''user not found'', er_Fields = ''''\<rparr>) ''fields'' = None
   \<and> spec_error_body (json_Marshal_ErrorResponse
        \<lparr>er_Error = ''user not found'', er_Fields = ''''\<rparr>)"
  using ErrorResponse_body_shape
          [of "\<lparr>er_Error = ''data validation error'', er_Fields = ''email is not valid''\<rparr>"]
        ErrorResponse_body_shape [of "\<lparr>er_Error = ''user not found'', er_Fields = ''''\<rparr>"]
  by simp

section \<open>Token Codec: issuing and parsing\<close>

lemma in_validity_window_iff:
  "in_validity_window now claims = (issued_by now claims \<and> expires_after now claims)"
  by (auto simp: in_validity_window_def issued_by_def expires_after_def split: option.splits)

text \<open>
  Claim C3, as stated, at claims issued in the future. The sample claims are valid (issued
  at 10 s, expiring at 20 s, with a subject) and expire after the current time 5 s; the
  token that \<^verbatim>\<open>Issue\<close> makes of them is rejected by \<^verbatim>\<open>Parse\<close>, since the current time is
  before the validity window.
\<close>

theorem Parse_Issue_before_window_counterexample:
  "valid_claims (claims_of ''U1'' [''USER''])
   \<and> expires_after 5000000000 (claims_of ''U1'' [''USER''])
   \<and> Issue sample_codec (claims_of ''U1'' [''USER''])
       = Inr \<lparr> kid = ''key-1'', payload = claims_of ''U1'' [''USER''],
               signature = (7, claims_of ''U1'' [''USER'']) \<rparr>
   \<and> Parse sample_codec 5000000000
         \<lparr> kid = ''key-1'', payload = claims_of ''U1'' [''USER''],
           signature = (7, claims_of ''U1'' [''USER'']) \<rparr>
       = Inl AuthenticationError"
  by (simp add: valid_claims_def expires_after_def Issue_def Parse_def sample_codec_def
        in_validity_window_def claims_of_def)

text \<open>
  Claim C3, amended. For valid claims whose expiry is strictly after the current time and
  whose issued-at is not after it, when the active key identifier resolves to a key pair
  whose public key verifies the private key's signature of the claims: \<^verbatim>\<open>Issue\<close> gives a
  token, and \<^verbatim>\<open>Parse\<close> of that token gives claims with the original subject and the
  original roles.
\<close>

theorem Parse_Issue_roundtrip:
  assumes "valid_claims claims" and "expires_after now claims" and "issued_by now claims"
    and "keys a (active a) = Some (private, public)"
    and "verify a public claims (sign a private claims)"
  shows "\<exists>tok claims'. Issue a claims = Inr tok \<and> Parse a now tok = Inr claims'
           \<and> Subject claims' = Subject claims
           \<and> claims_Roles claims' = claims_Roles claims"
proof -
  let ?tok = "\<lparr> kid = active a, payload = claims, signature = sign a private claims \<rparr>"
  have i: "Issue a claims = Inr ?tok"
    using assms(4) by (simp add: Issue_def)
  have w: "in_validity_window now claims"
    using assms(2,3) by (simp add: in_validity_window_iff)
  have p: "Parse a now ?tok = Inr claims"
    using assms(4,5) w by (simp add: Parse_def)
  from i p show ?thesis by blast
qed

theorem Parse_Issue_roundtrip_witness:
  "valid_claims (claims_of ''U1'' [''USER''])
   \<and> expires_after 15000000000 (claims_of ''U1'' [''USER''])
   \<and> issued_by 15000000000 (claims_of ''U1'' [''USER''])
   \<and> keys sample_codec (active sample_codec) = Some (7, 7)
   \<and> verify sample_codec 7 (claims_of ''U1'' [''USER''])
        (sign sample_codec 7 (claims_of ''U1'' [''USER'']))
   \<and> (\<exists>tok claims'. Issue sample_codec (claims_of ''U1'' [''USER'']) = Inr tok
         \<and> Parse sample_codec 15000000000 tok = Inr claims'
         \<and> Subject claims' = ''U1'' \<and> claims_Roles claims' = [''USER''])"
proof -
  have v: "valid_claims (claims_of ''U1'' [''USER''])"
    by (simp add: valid_claims_def claims_of_def)
  have e: "expires_after 15000000000 (claims_of ''U1'' [''USER''])"
    by (simp add: expires_after_def claims_of_def)
  have i: "issued_by 15000000000 (claims_of ''U1'' [''USER''])"
    by (simp add: issued_by_def claims_of_def)
  have k: "keys sample_codec (active sample_codec) = Some (7, 7)"
    by (simp add: sample_codec_def)
  have s: "verify sample_codec 7 (claims_of ''U1'' [''USER''])
             (sign sample_codec 7 (claims_of ''U1'' [''USER'']))"
    by (simp add: sample_codec_def)
  have f: "Subject (claims_of ''U1'' [''USER'']) = ''U1''"
    "claims_Roles (claims_of ''U1'' [''USER'']) = [''USER'']"
    by (simp_all add: claims_of_def)
  from Parse_Issue_roundtrip [OF v e i k s] f
  have "\<exists>tok claims'. Issue sample_codec (claims_of ''U1'' [''USER'']) = Inr tok
         \<and> Parse sample_codec 15000000000 tok = Inr claims'
         \<and> Subject claims' = ''U1'' \<and> claims_Roles claims' = [''USER'']"
    by simp
  with v e i k s show ?thesis by blast
qed

section \<open>Response Writer: one response for a request\<close>

lemma Respond_calls_started:
  "started req \<Longrightarrow>
   Respond_calls req calls = map (\<lambda>c. (Some AlreadyStarted, req)) calls"
  by (induction calls) (auto simp: Respond_def)

lemma rises_all_true: "rises (True # map (\<lambda>c. True) calls) = 0"
  by (induction calls) simp_all

lemma Respond_calls_new:
  "Respond_calls new_Request ((result, status) # rest)
     = (None, \<lparr>started = True, wire = [\<lparr>statusCode = status, body = result\<rparr>]\<rparr>)
       # map (\<lambda>c. (Some AlreadyStarted,
                     \<lparr>started = True, wire = [\<lparr>statusCode = status, body = result\<rparr>]\<rparr>)) rest"
  by (simp add: Respond_def new_Request_def Respond_calls_started)

text \<open>
  Claim C4. For a request that starts with the flag false and nothing on the wire, and
  any sequence of calls of \<^verbatim>\<open>Respond\<close>: the flag goes from false to true at most once;
  the first call returns no error, sets the flag and writes its response; every later
  call is detected (it returns the error and changes nothing); and after each call the
  flag is set and exactly one response, that of the first call, is on the wire.
\<close>

theorem Respond_at_most_once:
  "rises (map started (new_Request # map snd (Respond_calls new_Request calls))) \<le> 1
   \<and> (\<forall>(err, req) \<in> set (Respond_calls new_Request calls).
         started req \<and> length (wire req) = 1)
   \<and> Respond_calls new_Request ((result, status) # rest)
       = (None, \<lparr>started = True, wire = [\<lparr>statusCode = status, body = result\<rparr>]\<rparr>)
         # map (\<lambda>c. (Some AlreadyStarted,
                       \<lparr>started = True, wire = [\<lparr>statusCode = status, body = result\<rparr>]\<rparr>)) rest"
proof -
  have r: "rises (map started (new_Request # map snd (Respond_calls new_Request calls))) \<le> 1"
  proof (cases calls)
    case Nil
    then show ?thesis by (simp add: new_Request_def)
  next
    case (Cons c cs)
    obtain res st where c: "c = (res, st)" by (cases c)
    show ?thesis
      unfolding Cons c Respond_calls_new
      by (simp add: new_Request_def comp_def rises_all_true)
  qed
  have w: "\<forall>(err, req) \<in> set (Respond_calls new_Request calls).
             started req \<and> length (wire req) = 1"
  proof (cases calls)
    case Nil
    then show ?thesis by simp
  next
    case (Cons c cs)
    obtain res st where c: "c = (res, st)" by (cases c)
    show ?thesis
      unfolding Cons c Respond_calls_new by auto
  qed
  from r w Respond_calls_new [of result status rest] show ?thesis
    by (intro conjI)
qed

theorem Respond_at_most_once_witness:
  "Respond_calls new_Request [(JString ''OK'', 200), (JString ''again'', 500)]
     = [(None, \<lparr>started = True, wire = [\<lparr>statusCode = 200, body = JString ''OK''\<rparr>]\<rparr>),
        (Some AlreadyStarted,
         \<lparr>started = True, wire = [\<lparr>statusCode = 200, body = JString ''OK''\<rparr>]\<rparr>)]
   \<and> rises (map started (new_Request
        # map snd (Respond_calls new_Request [(JString ''OK'', 200), (JString ''again'', 500)])))
       \<le> 1
   \<and> length (wire (snd (last (Respond_calls new_Request
                              [(JString ''OK'', 200), (JString ''again'', 500)])))) = 1"
proof -
  note t = Respond_at_most_once
             [of "[(JString ''OK'', 200), (JString ''again'', 500)]" "JString ''OK''" 200
                 "[(JString ''again'', 500)]"]
  have v: "Respond_calls new_Request [(JString ''OK'', 200), (JString ''again'', 500)]
     = [(None, \<lparr>started = True, wire = [\<lparr>statusCode = 200, body = JString ''OK''\<rparr>]\<rparr>),
        (Some AlreadyStarted,
         \<lparr>started = True, wire = [\<lparr>statusCode = 200, body = JString ''OK''\<rparr>]\<rparr>)]"
    by (simp add: Respond_def new_Request_def)
  have a: "rises (map started (new_Request
        # map snd (Respond_calls new_Request [(JString ''OK'', 200), (JString ''again'', 500)])))
       \<le> 1"
    using t by (rule conjunct1)
  have b: "\<forall>(err, req) \<in> set (Respond_calls new_Request
                              [(JString ''OK'', 200), (JString ''again'', 500)]).
         started req \<and> length (wire req) = 1"
    using t by (elim conjE)
  from b v have c: "length (wire (snd (last (Respond_calls new_Request
                              [(JString ''OK'', 200), (JString ''again'', 500)])))) = 1"
    by simp
  from v a c show ?thesis by (intro conjI)
qed

end
